theory Spec2Isabelle
  imports Complex_Main
begin

section \<open>Python values used by app.py\<close>

text \<open>
  A Python \<open>str\<close> is a sequence of Unicode code points and \<open>len\<close> counts code points,
  so a string is a list of code points. \<open>lit\<close> turns an ASCII literal of the source into
  that representation; the few non-ASCII characters of the source are written as numbers.
\<close>

type_synonym pystr = "nat list"

definition lit :: "string \<Rightarrow> pystr" where
  "lit s = map of_char s"

definition nl :: pystr where
  "nl = [10]"

definition dq3 :: pystr where
  "dq3 = [34, 34, 34]"

definition apos :: pystr where
  "apos = [39]"

text \<open>
  \<open>str.strip()\<close> with no argument removes the characters for which CPython's
  \<open>Py_UNICODE_ISSPACE\<close> holds, from both ends.
\<close>

definition isspace :: "nat \<Rightarrow> bool" where
  "isspace c =
     ((9 \<le> c \<and> c \<le> 13) \<or> (28 \<le> c \<and> c \<le> 32) \<or> c = 133 \<or> c = 160 \<or> c = 5760 \<or>
      (8192 \<le> c \<and> c \<le> 8202) \<or> c = 8232 \<or> c = 8233 \<or> c = 8239 \<or> c = 8287 \<or> c = 12288)"

definition lstrip :: "pystr \<Rightarrow> pystr" where
  "lstrip s = dropWhile isspace s"

definition rstrip :: "pystr \<Rightarrow> pystr" where
  "rstrip s = rev (dropWhile isspace (rev s))"

definition strip :: "pystr \<Rightarrow> pystr" where
  "strip s = rstrip (lstrip s)"

text \<open>
  Exceptions. \<open>except Exception\<close> catches every class but the ones that derive from
  \<open>BaseException\<close> directly (\<open>KeyboardInterrupt\<close>, \<open>SystemExit\<close>). \<open>exc_str\<close> is
  what \<open>str(e)\<close> gives.
\<close>

datatype exc_class =
    PageError | DisambiguationError | RedirectError | HTTPTimeoutError | WikipediaException
  | ConnectionError | FileExistsError | NotADirectoryError | IndexError | ValueError
  | OtherException | KeyboardInterrupt | SystemExit

datatype pyexc = PyExc (exc_class: exc_class) (exc_str: pystr)

fun is_Exception :: "exc_class \<Rightarrow> bool" where
  "is_Exception KeyboardInterrupt = False"
| "is_Exception SystemExit = False"
| "is_Exception _ = True"

text \<open>Truthiness of an optional string (\<open>if question:\<close>, \<open>if wiki_text:\<close>).\<close>

fun truthy :: "pystr option \<Rightarrow> bool" where
  "truthy None = False"
| "truthy (Some s) = (s \<noteq> [])"

section \<open>The file system under the working directory\<close>

text \<open>
  A relative path is the list of its components; a directory maps names to nodes.
\<close>

type_synonym path = "pystr list"

datatype node = File "nat list" | Dir "pystr \<Rightarrow> node option"

type_synonym directory = "pystr \<Rightarrow> node option"

fun lookup_node :: "directory \<Rightarrow> path \<Rightarrow> node option" where
  "lookup_node d [] = Some (Dir d)"
| "lookup_node d (c # cs) =
     (case d c of
        None \<Rightarrow> None
      | Some (File b) \<Rightarrow> (if cs = [] then Some (File b) else None)
      | Some (Dir sub) \<Rightarrow> lookup_node sub cs)"

definition os_path_exists :: "directory \<Rightarrow> path \<Rightarrow> bool" where
  "os_path_exists d p = (lookup_node d p \<noteq> None)"

definition os_path_join :: "pystr \<Rightarrow> pystr \<Rightarrow> path" where
  "os_path_join a b = [a, b]"

text \<open>
  \<open>os.makedirs(name, exist_ok=True)\<close>: creates the directory and its missing parents,
  accepts an existing directory, and raises when a component is a regular file.
\<close>

fun os_makedirs :: "directory \<Rightarrow> path \<Rightarrow> pyexc + directory" where
  "os_makedirs d [] = Inr d"
| "os_makedirs d (c # cs) =
     (case d c of
        None \<Rightarrow>
          (case os_makedirs (\<lambda>_. None) cs of
             Inl e \<Rightarrow> Inl e
           | Inr sub' \<Rightarrow> Inr (d(c \<mapsto> Dir sub')))
      | Some (File b) \<Rightarrow>
          Inl (PyExc (if cs = [] then FileExistsError else NotADirectoryError) c)
      | Some (Dir sub) \<Rightarrow>
          (case os_makedirs sub cs of
             Inl e \<Rightarrow> Inl e
           | Inr sub' \<Rightarrow> Inr (d(c \<mapsto> Dir sub'))))"

section \<open>Configuration\<close>

definition MODEL_DIR :: pystr where
  "MODEL_DIR = lit ''models''"

definition MODEL_PATH :: path where
  "MODEL_PATH = os_path_join MODEL_DIR (lit ''phi-2.Q4_K_M.gguf'')"

definition MODEL_DRIVE_URL :: pystr where
  "MODEL_DRIVE_URL = lit ''https://drive.google.com/uc?id=1bquBi_ccK4XDsatiHZsucysPUBXzmga6''"

section \<open>The process state and the external collaborators\<close>

text \<open>
  What Streamlit is asked to display, in order. Widgets that return user input
  (buttons, text inputs, the radio) are the fields of \<open>inputs\<close> below.
\<close>

datatype ui_event =
    SetPageConfig pystr pystr
  | Title pystr
  | Markdown pystr
  | SidebarHeader pystr
  | Info pystr
  | Success pystr
  | Error pystr
  | Spinner pystr
  | Expander pystr
  | Write pystr
  | Subheader pystr
  | Caption pystr

text \<open>A \<open>Llama\<close> object is known by its identity: the number of objects built before it.\<close>

datatype handle = Handle nat

datatype llm_request =
  Request (req_handle: handle) (req_prompt: pystr) (req_max_tokens: nat) (req_temperature: rat)

datatype choice = Choice (choice_text: pystr)

datatype completion = Completion (choices: "choice list")

datatype wikipage = WikipediaPage (page_content: "pyexc + pystr")

text \<open>
  The state of the server process: the working directory, what was displayed, the store
  behind \<open>st.cache_resource\<close> for \<open>load_model\<close>, the number of \<open>Llama\<close> objects built,
  the calls to \<open>gdown.download\<close> and the calls to the engine.
\<close>

record world =
  fs :: directory
  ui :: "ui_event list"
  resource_cache :: "handle option"
  llama_loads :: nat
  downloads :: "(pystr \<times> path) list"
  llm_calls :: "llm_request list"

text \<open>
  The libraries the script calls are parameters: what \<open>gdown.download\<close> does to the
  working directory, what \<open>wikipedia.page\<close> answers, whether building \<open>Llama\<close> on the
  model file fails, and what the engine answers to its k-th call.
\<close>

record env =
  gdown_download :: "pystr \<Rightarrow> path \<Rightarrow> directory \<Rightarrow> (pyexc + unit) \<times> directory"
  wikipedia_page :: "pystr \<Rightarrow> pyexc + wikipage"
  Llama :: "directory \<Rightarrow> path \<Rightarrow> nat \<Rightarrow> nat \<Rightarrow> pyexc option"
  llm_complete :: "nat \<Rightarrow> handle \<Rightarrow> pystr \<Rightarrow> nat \<Rightarrow> rat \<Rightarrow> pyexc + completion"

text \<open>A statement either raises or returns, and leaves a new process state.\<close>

type_synonym 'a io = "world \<Rightarrow> (pyexc + 'a) \<times> world"

definition io_return :: "'a \<Rightarrow> 'a io" where
  "io_return x w = (Inr x, w)"

definition io_bind :: "'a io \<Rightarrow> ('a \<Rightarrow> 'b io) \<Rightarrow> 'b io" where
  "io_bind m f w = (case m w of (Inl e, w') \<Rightarrow> (Inl e, w') | (Inr x, w') \<Rightarrow> f x w')"

definition emit :: "ui_event \<Rightarrow> world \<Rightarrow> world" where
  "emit ev w = w\<lparr>ui := ui w @ [ev]\<rparr>"

definition st_emit :: "ui_event \<Rightarrow> unit io" where
  "st_emit ev w = (Inr (), emit ev w)"

section \<open>download_model\<close>

definition download_model :: "env \<Rightarrow> unit io" where
  "download_model env w =
     (case os_makedirs (fs w) [MODEL_DIR] of
        Inl e \<Rightarrow> (Inl e, w)
      | Inr d \<Rightarrow>
          (let w1 = w\<lparr>fs := d\<rparr> in
           if \<not> os_path_exists (fs w1) MODEL_PATH then
             (let w2 = emit (Info (lit ''Downloading Phi-2 model... This may take a few minutes '' @ [9203])) w1;
                  w3 = w2\<lparr>downloads := downloads w2 @ [(MODEL_DRIVE_URL, MODEL_PATH)]\<rparr>
              in case gdown_download env MODEL_DRIVE_URL MODEL_PATH (fs w3) of
                   (Inl e, d') \<Rightarrow> (Inl e, w3\<lparr>fs := d'\<rparr>)
                 | (Inr _, d') \<Rightarrow>
                     (Inr (), emit (Success (lit ''Model downloaded successfully '' @ [9989])) (w3\<lparr>fs := d'\<rparr>)))
           else (Inr (), emit (Info (lit ''Model already available '' @ [9989])) w1)))"

section \<open>load_model under st.cache_resource\<close>

text \<open>The body of \<open>load_model\<close>: \<open>Llama(model_path=MODEL_PATH, n_ctx=2048, n_threads=8)\<close>.\<close>

definition load_model_body :: "env \<Rightarrow> handle io" where
  "load_model_body env w =
     (case Llama env (fs w) MODEL_PATH 2048 8 of
        Some e \<Rightarrow> (Inl e, w)
      | None \<Rightarrow> (Inr (Handle (llama_loads w)), w\<lparr>llama_loads := Suc (llama_loads w)\<rparr>))"

text \<open>
  The decorator \<open>st.cache_resource\<close> on a function without arguments: the first call
  that returns stores the object, later calls return the stored object and do not run the
  body; a call that raises stores nothing.
\<close>

definition cache_resource :: "handle io \<Rightarrow> handle io" where
  "cache_resource f w =
     (case resource_cache w of
        Some h \<Rightarrow> (Inr h, w)
      | None \<Rightarrow>
          (case f w of
             (Inl e, w') \<Rightarrow> (Inl e, w')
           | (Inr h, w') \<Rightarrow> (Inr h, w'\<lparr>resource_cache := Some h\<rparr>)))"

definition load_model :: "env \<Rightarrow> handle io" where
  "load_model env = cache_resource (load_model_body env)"

section \<open>get_wiki_content\<close>

definition get_wiki_content :: "env \<Rightarrow> pystr \<Rightarrow> (pystr option) io" where
  "get_wiki_content env topic w =
     (case (case wikipedia_page env topic of
              Inl e \<Rightarrow> Inl e
            | Inr page \<Rightarrow>
                (case page_content page of
                   Inl e \<Rightarrow> Inl e
                 | Inr c \<Rightarrow> Inr (take 6000 c))) of
        Inr r \<Rightarrow> (Inr (Some r), w)
      | Inl e \<Rightarrow>
          if is_Exception (exc_class e)
          then (Inr None, emit (Error ([10060] @ lit '' Error fetching content: '' @ exc_str e)) w)
          else (Inl e, w))"

section \<open>summarize_content\<close>

text \<open>The two f-strings of \<open>summarize_content\<close>, and the branch that chooses between them.\<close>

definition answer_prompt :: "pystr \<Rightarrow> pystr \<Rightarrow> pystr" where
  "answer_prompt content question =
     nl @ lit ''You are an AI assistant. Based on the Wikipedia content below,'' @ nl @
     lit ''answer the question clearly and concisely.'' @ nl @
     nl @
     lit ''Wikipedia content:'' @ nl @
     dq3 @ content @ dq3 @ nl @
     nl @
     lit ''Question: '' @ question @ nl @
     lit ''Answer:'' @ nl"

definition summary_prompt :: "pystr \<Rightarrow> pystr \<Rightarrow> pystr" where
  "summary_prompt topic content =
     nl @ lit ''Summarize the following Wikipedia content about '' @ apos @ topic @ apos @
     lit '' in a clear,'' @ nl @
     lit ''structured, and easy-to-read manner.'' @ nl @
     nl @
     lit ''Wikipedia content:'' @ nl @
     dq3 @ content @ dq3 @ nl @
     nl @
     lit ''Summary:'' @ nl"

definition build_prompt :: "pystr \<Rightarrow> pystr \<Rightarrow> pystr option \<Rightarrow> pystr" where
  "build_prompt topic content question =
     (case question of
        None \<Rightarrow> summary_prompt topic content
      | Some q \<Rightarrow> if q \<noteq> [] then answer_prompt content q else summary_prompt topic content)"

definition summarize_content :: "env \<Rightarrow> handle \<Rightarrow> pystr \<Rightarrow> pystr \<Rightarrow> pystr option \<Rightarrow> pystr io" where
  "summarize_content env llm topic content question w =
     (let prompt = build_prompt topic content question;
          w1 = w\<lparr>llm_calls := llm_calls w @ [Request llm prompt 512 (6 / 10)]\<rparr>
      in case llm_complete env (length (llm_calls w)) llm prompt 512 (6 / 10) of
           Inl e \<Rightarrow> (Inl e, w1)
         | Inr output \<Rightarrow>
             (case choices output of
                [] \<Rightarrow> (Inl (PyExc IndexError (lit ''list index out of range'')), w1)
              | c # _ \<Rightarrow> (Inr (strip (choice_text c)), w1)))"

section \<open>The Streamlit script\<close>

datatype action = Summarize_Topic | Ask_a_Question

text \<open>What the widgets return in one run of the script.\<close>

record inputs =
  download_button :: bool
  topic_input :: pystr
  action_radio :: action
  summary_button :: bool
  question_input :: pystr
  answer_button :: bool

text \<open>Lines 98 to 112: the chosen action.\<close>

definition action_section :: "env \<Rightarrow> inputs \<Rightarrow> handle \<Rightarrow> pystr \<Rightarrow> unit io" where
  "action_section env inp llm wiki_text =
     (case action_radio inp of
        Summarize_Topic \<Rightarrow>
          if summary_button inp then
            io_bind (st_emit (Spinner (lit ''Generating summary...''))) (\<lambda>_.
            io_bind (summarize_content env llm (topic_input inp) wiki_text None) (\<lambda>summary.
            io_bind (st_emit (Success ([9989] @ lit '' Summary generated!''))) (\<lambda>_.
            st_emit (Write summary))))
          else io_return ()
      | Ask_a_Question \<Rightarrow>
          if answer_button inp \<and> question_input inp \<noteq> [] then
            io_bind (st_emit (Spinner (lit ''Generating answer...''))) (\<lambda>_.
            io_bind (summarize_content env llm (topic_input inp) wiki_text
                       (Some (question_input inp))) (\<lambda>answer.
            io_bind (st_emit (Success ([9989] @ lit '' Answer generated!''))) (\<lambda>_.
            st_emit (Write answer))))
          else io_return ())"

text \<open>Lines 87 to 112: what runs when \<open>wiki_text\<close> is truthy.\<close>

definition content_section :: "env \<Rightarrow> inputs \<Rightarrow> pystr \<Rightarrow> unit io" where
  "content_section env inp wiki_text =
     io_bind (st_emit (Expander ([128196] @ lit '' View Retrieved Wikipedia Text''))) (\<lambda>_.
     io_bind (st_emit (Write (if length wiki_text > 2000
                              then take 2000 wiki_text @ lit ''...'' else wiki_text))) (\<lambda>_.
     io_bind (st_emit (Spinner (lit ''Loading Phi-2 model...''))) (\<lambda>_.
     io_bind (load_model env) (\<lambda>llm.
     io_bind (st_emit (Subheader ([129513] @ lit '' Choose Action''))) (\<lambda>_.
     action_section env inp llm wiki_text)))))"

text \<open>Lines 83 to 112: what runs when \<open>topic\<close> is truthy.\<close>

definition topic_section :: "env \<Rightarrow> inputs \<Rightarrow> unit io" where
  "topic_section env inp =
     io_bind (st_emit (Spinner (lit ''Fetching Wikipedia content...''))) (\<lambda>_.
     io_bind (get_wiki_content env (topic_input inp)) (\<lambda>wiki_text.
     case wiki_text of
       None \<Rightarrow> io_return ()
     | Some s \<Rightarrow> if s \<noteq> [] then content_section env inp s else io_return ()))"

text \<open>One run of the script, top to bottom.\<close>

definition app :: "env \<Rightarrow> inputs \<Rightarrow> unit io" where
  "app env inp =
     io_bind (st_emit (SetPageConfig (lit ''Wikipedia Q&A Assistant'') (lit ''wide''))) (\<lambda>_.
     io_bind (st_emit (Title ([128218] @ lit '' Wikipedia Q&A Assistant (Phi-2)''))) (\<lambda>_.
     io_bind (st_emit (Markdown (lit ''Ask questions or get summaries from any Wikipedia topic using the Phi-2 model!''))) (\<lambda>_.
     io_bind (st_emit (SidebarHeader ([9881, 65039] @ lit '' Setup''))) (\<lambda>_.
     io_bind (if download_button inp then download_model env else io_return ()) (\<lambda>_.
     io_bind (if topic_input inp \<noteq> [] then topic_section env inp else io_return ()) (\<lambda>_.
     io_bind (st_emit (Markdown (lit ''---''))) (\<lambda>_.
     st_emit (Caption (lit ''Developed with '' @ [10084, 65039] @ lit '' using Streamlit + Phi-2'')))))))))"

text \<open>
  The process serves one run after another; the state left by a run, also by one that
  raised, is the state the next run starts in. Each run has its own answers of the
  outside world.
\<close>

fun app_runs :: "(env \<times> inputs) list \<Rightarrow> world \<Rightarrow> world" where
  "app_runs [] w = w"
| "app_runs ((env, inp) # rest) w = app_runs rest (snd (app env inp w))"

definition process_start :: "directory \<Rightarrow> world" where
  "process_start d =
     \<lparr>fs = d, ui = [], resource_cache = None, llama_loads = 0, downloads = [], llm_calls = []\<rparr>"

section \<open>Example collaborators\<close>

text \<open>
  A concrete outside world for the example runs: the download puts a model file in
  place, the topic "Quantum Computing" resolves to a page of 7000 characters and every
  other topic is a missing page, the engine loads when the model file exists and answers
  every prompt with the same padded text.
\<close>

definition demo_model_dir :: directory where
  "demo_model_dir = (\<lambda>_. None)(lit ''phi-2.Q4_K_M.gguf'' \<mapsto> File [71, 71, 85, 70])"

definition demo_article :: pystr where
  "demo_article = replicate 7000 113"

definition demo_env :: env where
  "demo_env =
     \<lparr>gdown_download = (\<lambda>url p d. (Inr (), d(lit ''models'' \<mapsto> Dir demo_model_dir))),
      wikipedia_page = (\<lambda>t. if t = lit ''Quantum Computing''
                            then Inr (WikipediaPage (Inr demo_article))
                            else Inl (PyExc PageError (lit ''Page id does not match any pages.''))),
      Llama = (\<lambda>d p n_ctx n_threads. if os_path_exists d p then None
                 else Some (PyExc ValueError (lit ''Model path does not exist''))),
      llm_complete = (\<lambda>k h prompt max_tokens temperature.
                        Inr (Completion [Choice (lit ''  A summary. '' @ nl)]))\<rparr>"

definition demo_inputs :: inputs where
  "demo_inputs =
     \<lparr>download_button = False, topic_input = lit ''Quantum Computing'',
      action_radio = Summarize_Topic, summary_button = True,
      question_input = [], answer_button = False\<rparr>"

definition demo_ask_inputs :: inputs where
  "demo_ask_inputs =
     \<lparr>download_button = False, topic_input = lit ''Quantum Computing'',
      action_radio = Ask_a_Question, summary_button = False,
      question_input = [], answer_button = True\<rparr>"

definition demo_missing_inputs :: inputs where
  "demo_missing_inputs =
     \<lparr>download_button = False, topic_input = lit ''Zzxyqplmnasdf123'',
      action_radio = Summarize_Topic, summary_button = True,
      question_input = [], answer_button = False\<rparr>"

definition demo_fs :: directory where
  "demo_fs = (\<lambda>_. None)(lit ''models'' \<mapsto> Dir demo_model_dir)"

section \<open>The invariant of the cached handle\<close>

text \<open>
  Either nothing is cached and no \<open>Llama\<close> object was built, or the first object is
  cached and it is the only one built; every call to the engine went through that object.
\<close>

definition cache_inv :: "world \<Rightarrow> bool" where
  "cache_inv w =
     ((case resource_cache w of
         None \<Rightarrow> llama_loads w = 0
       | Some h \<Rightarrow> h = Handle 0 \<and> llama_loads w = 1) \<and>
      list_all (\<lambda>r. req_handle r = Handle 0) (llm_calls w))"

text \<open>Two process states that agree on the cache, the objects built and the engine calls.\<close>

definition same_model_state :: "world \<Rightarrow> world \<Rightarrow> bool" where
  "same_model_state w1 w =
     (llm_calls w1 = llm_calls w \<and> llama_loads w1 = llama_loads w \<and>
      resource_cache w1 = resource_cache w)"

section \<open>Stripping\<close>

lemma dropWhile_fixed_hd:
  assumes "dropWhile P xs = xs" and "xs \<noteq> []"
  shows "\<not> P (hd xs)"
proof
  assume p: "P (hd xs)"
  obtain y ys where xs: "xs = y # ys" using assms(2) by (cases xs) auto
  have "length (dropWhile P ys) \<le> length ys" by (rule length_dropWhile_le)
  moreover have "dropWhile P ys = y # ys" using assms(1) p xs by simp
  ultimately show False by simp
qed

lemma dropWhile_rstrip_fixed:
  assumes "dropWhile P xs = xs"
  shows "dropWhile P (rev (dropWhile P (rev xs))) = rev (dropWhile P (rev xs))"
proof (cases "rev (dropWhile P (rev xs))")
  case Nil
  then show ?thesis by (simp only: dropWhile.simps)
next
  case (Cons y ys)
  have "rev xs = takeWhile P (rev xs) @ dropWhile P (rev xs)" by simp
  then have "xs = rev (dropWhile P (rev xs)) @ rev (takeWhile P (rev xs))"
    by (metis rev_append rev_rev_ident)
  then obtain zs where zs: "xs = (y # ys) @ zs" using Cons by metis
  then have "xs \<noteq> []" and "hd xs = y" by simp_all
  then have "\<not> P y" using dropWhile_fixed_hd [OF assms] by simp
  then show ?thesis using Cons by simp
qed

lemma strip_idem: "strip (strip s) = strip s"
  unfolding strip_def rstrip_def lstrip_def
  using dropWhile_rstrip_fixed [of isspace "dropWhile isspace s"]
  by (simp add: dropWhile_idem)

lemma lstrip_strip: "lstrip (strip s) = strip s"
  unfolding strip_def rstrip_def lstrip_def
  using dropWhile_rstrip_fixed [of isspace "dropWhile isspace s"]
  by (simp add: dropWhile_idem)

lemma strip_hd: "strip s \<noteq> [] \<Longrightarrow> \<not> isspace (hd (strip s))"
  using dropWhile_fixed_hd [of isspace "strip s"] lstrip_strip [of s]
  by (simp add: lstrip_def)

lemma strip_last: "strip s \<noteq> [] \<Longrightarrow> \<not> isspace (last (strip s))"
proof -
  assume ne: "strip s \<noteq> []"
  let ?d = "dropWhile isspace (rev (lstrip s))"
  have s: "strip s = rev ?d" by (simp add: strip_def rstrip_def)
  then have "?d \<noteq> []" using ne by simp
  then have "\<not> isspace (hd ?d)" by (rule hd_dropWhile)
  moreover have "last (rev ?d) = hd ?d" using \<open>?d \<noteq> []\<close> by (simp add: last_rev)
  ultimately show ?thesis using s by simp
qed

section \<open>The prompts of summarize_content\<close>

lemma answer_prompt_split:
  "answer_prompt content q =
     (nl @ lit ''You are an AI assistant. Based on the Wikipedia content below,'' @ nl @
      lit ''answer the question clearly and concisely.'' @ nl @ nl @
      lit ''Wikipedia content:'' @ nl @ dq3) @ content @
     (dq3 @ nl @ nl @ lit ''Question: '' @ q @ nl @ lit ''Answer:'' @ nl)"
  by (simp add: answer_prompt_def)

lemma summary_prompt_split:
  "summary_prompt topic content =
     (nl @ lit ''Summarize the following Wikipedia content about '' @ apos @ topic @ apos @
      lit '' in a clear,'' @ nl @ lit ''structured, and easy-to-read manner.'' @ nl @ nl @
      lit ''Wikipedia content:'' @ nl @ dq3) @ content @
     (dq3 @ nl @ nl @ lit ''Summary:'' @ nl)"
  by (simp add: summary_prompt_def)

lemma prompts_differ: "answer_prompt content q \<noteq> summary_prompt topic content'"
  by (simp add: answer_prompt_def summary_prompt_def lit_def nl_def)

lemma summarize_content_calls:
  "llm_calls (snd (summarize_content env llm topic content question w)) =
     llm_calls w @ [Request llm (build_prompt topic content question) 512 (6 / 10)]"
  by (simp add: summarize_content_def Let_def split: sum.split list.split)

lemma summarize_content_result:
  "summarize_content env llm topic content question w = (Inr r, w') \<Longrightarrow>
     \<exists>c. r = strip (choice_text c)"
  by (auto simp: summarize_content_def Let_def split: sum.splits list.splits)

lemma demo_summarize:
  "summarize_content demo_env (Handle 0) (lit ''Quantum Computing'') (lit ''Qubits'') None
     (process_start (\<lambda>_. None)) =
   (Inr (lit ''A summary.''),
    (process_start (\<lambda>_. None))\<lparr>llm_calls :=
       [Request (Handle 0) (summary_prompt (lit ''Quantum Computing'') (lit ''Qubits'')) 512 (6 / 10)]\<rparr>)"
  by (simp add: summarize_content_def build_prompt_def demo_env_def process_start_def
      strip_def lstrip_def rstrip_def isspace_def lit_def nl_def)

text \<open>
  C8. Whatever the engine completes, the string that \<open>summarize_content\<close> returns is
  stripped: stripping it again leaves it unchanged, and when it is not empty neither its
  first nor its last character is whitespace.
\<close>

theorem summarize_content_stripped:
  assumes "summarize_content env llm topic content question w = (Inr r, w')"
  shows "strip r = r \<and> (r \<noteq> [] \<longrightarrow> \<not> isspace (hd r) \<and> \<not> isspace (last r))"
proof -
  obtain c where r: "r = strip (choice_text c)"
    using summarize_content_result [OF assms] by blast
  show ?thesis
    unfolding r using strip_idem strip_hd strip_last by blast
qed

theorem summarize_content_stripped_witness:
  "fst (summarize_content demo_env (Handle 0) (lit ''Quantum Computing'') (lit ''Qubits'') None
     (process_start (\<lambda>_. None))) = Inr (lit ''A summary.'') \<and>
   strip (lit ''A summary.'') = lit ''A summary.'' \<and>
   \<not> isspace (hd (lit ''A summary.'')) \<and> \<not> isspace (last (lit ''A summary.''))"
  using summarize_content_stripped [OF demo_summarize] demo_summarize by (simp add: lit_def)

text \<open>
  C9. The prompt built by \<open>summarize_content\<close> holds the content verbatim as a contiguous
  substring: for a given topic and question the prompt is one fixed prefix, the content as
  it is, and one fixed suffix, whatever the content contains.
\<close>

theorem build_prompt_content_verbatim:
  "\<exists>pre post. \<forall>content. build_prompt topic content question = pre @ content @ post"
proof (cases "truthy question")
  case True
  then obtain q where q: "question = Some q" "q \<noteq> []" by (cases question) auto
  have "\<forall>content. build_prompt topic content question =
      (nl @ lit ''You are an AI assistant. Based on the Wikipedia content below,'' @ nl @
      lit ''answer the question clearly and concisely.'' @ nl @ nl @
      lit ''Wikipedia content:'' @ nl @ dq3) @ content @
     (dq3 @ nl @ nl @ lit ''Question: '' @ q @ nl @ lit ''Answer:'' @ nl)"
    using q answer_prompt_split by (simp add: build_prompt_def)
  then show ?thesis by blast
next
  case False
  then have "\<forall>content. build_prompt topic content question = summary_prompt topic content"
    by (cases question) (simp_all add: build_prompt_def)
  then have "\<forall>content. build_prompt topic content question =
     (nl @ lit ''Summarize the following Wikipedia content about '' @ apos @ topic @ apos @
      lit '' in a clear,'' @ nl @ lit ''structured, and easy-to-read manner.'' @ nl @ nl @
      lit ''Wikipedia content:'' @ nl @ dq3) @ content @
     (dq3 @ nl @ nl @ lit ''Summary:'' @ nl)"
    using summary_prompt_split by simp
  then show ?thesis by blast
qed

text \<open>
  C4. Without a question \<open>summarize_content\<close> sends the engine the summarize template,
  with a question that is present and not empty it sends the answer template, and for the
  same topic and content the two prompts differ.
\<close>

theorem summarize_content_template_choice:
  "llm_calls (snd (summarize_content env llm topic content None w)) =
     llm_calls w @ [Request llm (summary_prompt topic content) 512 (6 / 10)] \<and>
   (q \<noteq> [] \<longrightarrow>
     llm_calls (snd (summarize_content env llm topic content (Some q) w)) =
       llm_calls w @ [Request llm (answer_prompt content q) 512 (6 / 10)]) \<and>
   answer_prompt content q \<noteq> summary_prompt topic content"
  using prompts_differ [of content q topic content]
  by (simp add: summarize_content_calls build_prompt_def)

theorem summarize_content_template_choice_witness:
  "lit ''Q'' \<noteq> [] \<and>
   llm_calls (snd (summarize_content demo_env (Handle 0) (lit ''T'') (lit ''C'') None
      (process_start (\<lambda>_. None)))) =
     [Request (Handle 0) (summary_prompt (lit ''T'') (lit ''C'')) 512 (6 / 10)] \<and>
   llm_calls (snd (summarize_content demo_env (Handle 0) (lit ''T'') (lit ''C'') (Some (lit ''Q''))
      (process_start (\<lambda>_. None)))) =
     [Request (Handle 0) (answer_prompt (lit ''C'') (lit ''Q'')) 512 (6 / 10)] \<and>
   answer_prompt (lit ''C'') (lit ''Q'') \<noteq> summary_prompt (lit ''T'') (lit ''C'')"
  using summarize_content_template_choice [of demo_env "Handle 0" "lit ''T''" "lit ''C''"
      "process_start (\<lambda>_. None)" "lit ''Q''"]
  by (simp add: process_start_def lit_def)

text \<open>
  C10. Prompt construction is deterministic: two calls of \<open>summarize_content\<close> with equal
  topic, content and question pass the same prompt to the engine, whatever the engine, the
  handle and the process state of each call are.
\<close>

theorem summarize_content_prompt_deterministic:
  "\<exists>p. llm_calls (snd (summarize_content env1 llm1 topic content question w1)) =
          llm_calls w1 @ [Request llm1 p 512 (6 / 10)] \<and>
        llm_calls (snd (summarize_content env2 llm2 topic content question w2)) =
          llm_calls w2 @ [Request llm2 p 512 (6 / 10)]"
  by (simp add: summarize_content_calls)

section \<open>Sequencing\<close>

lemma fst_io_bind:
  "fst (io_bind m f w) = (case fst (m w) of Inl e \<Rightarrow> Inl e | Inr x \<Rightarrow> fst (f x (snd (m w))))"
  by (simp add: io_bind_def split: prod.split sum.split)

lemma snd_io_bind:
  "snd (io_bind m f w) = (case fst (m w) of Inl e \<Rightarrow> snd (m w) | Inr x \<Rightarrow> snd (f x (snd (m w))))"
  by (simp add: io_bind_def split: prod.split sum.split)

lemma st_emit_simps:
  "fst (st_emit ev w) = Inr ()" "snd (st_emit ev w) = emit ev w"
  by (simp_all add: st_emit_def)

lemma io_return_simps:
  "fst (io_return x w) = Inr x" "snd (io_return x w) = w"
  by (simp_all add: io_return_def)

lemma emit_fields:
  "fs (emit ev w) = fs w" "resource_cache (emit ev w) = resource_cache w"
  "llama_loads (emit ev w) = llama_loads w" "downloads (emit ev w) = downloads w"
  "llm_calls (emit ev w) = llm_calls w" "ui (emit ev w) = ui w @ [ev]"
  by (simp_all add: emit_def)

section \<open>get_wiki_content\<close>

lemma get_wiki_content_fst_indep:
  "fst (get_wiki_content env topic w) = fst (get_wiki_content env topic w')"
  by (simp add: get_wiki_content_def split: sum.split)

lemma get_wiki_content_frame:
  "llm_calls (snd (get_wiki_content env topic w)) = llm_calls w"
  "llama_loads (snd (get_wiki_content env topic w)) = llama_loads w"
  "resource_cache (snd (get_wiki_content env topic w)) = resource_cache w"
  by (simp_all add: get_wiki_content_def emit_fields split: sum.split)


section \<open>download_model\<close>

lemma makedirs_present:
  assumes "os_path_exists d MODEL_PATH"
  shows "os_makedirs d [MODEL_DIR] = Inr d"
proof -
  obtain sub where sub: "d MODEL_DIR = Some (Dir sub)"
    using assms
    by (auto simp: os_path_exists_def MODEL_PATH_def os_path_join_def
        split: option.splits node.splits if_splits)
  have "d(MODEL_DIR \<mapsto> Dir sub) = d" using sub by (rule map_upd_triv)
  then show ?thesis using sub by simp
qed

lemma makedirs_absent:
  assumes "\<not> os_path_exists d MODEL_PATH" and "os_makedirs d [MODEL_DIR] = Inr d'"
  shows "\<not> os_path_exists d' MODEL_PATH \<and> (\<exists>sub. d' MODEL_DIR = Some (Dir sub))"
  using assms
  by (auto simp: os_path_exists_def MODEL_PATH_def os_path_join_def
      split: option.splits node.splits if_splits)

lemma makedirs_ok:
  assumes "\<forall>b. d MODEL_DIR \<noteq> Some (File b)"
  shows "\<exists>d'. os_makedirs d [MODEL_DIR] = Inr d'"
  using assms by (auto split: option.splits node.splits)

lemma download_model_frame:
  "llm_calls (snd (download_model env w)) = llm_calls w"
  "llama_loads (snd (download_model env w)) = llama_loads w"
  "resource_cache (snd (download_model env w)) = resource_cache w"
  by (simp_all add: download_model_def Let_def emit_fields split: sum.split prod.split)

text \<open>
  C5. \<open>download_model\<close> looks for the model file at the fixed path. When the file is
  there it changes nothing in the file system and downloads nothing: its only effect is
  one status message. When the file is absent (and the directory can be made) the
  directory exists afterwards and \<open>gdown.download\<close> is called once, with the fixed URL
  and the fixed path, on that directory tree; the call succeeds exactly when the download
  does.
\<close>
theorem download_model_provisions:
  "(os_path_exists (fs w) MODEL_PATH \<longrightarrow>
      download_model env w = (Inr (), emit (Info (lit ''Model already available '' @ [9989])) w)) \<and>
   (\<not> os_path_exists (fs w) MODEL_PATH \<and> (\<forall>b. fs w MODEL_DIR \<noteq> Some (File b)) \<longrightarrow>
      (\<exists>d sub. os_makedirs (fs w) [MODEL_DIR] = Inr d \<and> d MODEL_DIR = Some (Dir sub) \<and>
         downloads (snd (download_model env w)) = downloads w @ [(MODEL_DRIVE_URL, MODEL_PATH)] \<and>
         fs (snd (download_model env w)) = snd (gdown_download env MODEL_DRIVE_URL MODEL_PATH d) \<and>
         (fst (download_model env w) = Inr ()) =
           (fst (gdown_download env MODEL_DRIVE_URL MODEL_PATH d) = Inr ())))"
proof (intro conjI impI)
  assume ex: "os_path_exists (fs w) MODEL_PATH"
  have "w\<lparr>fs := fs w\<rparr> = w" by simp
  then show "download_model env w = (Inr (), emit (Info (lit ''Model already available '' @ [9989])) w)"
    using ex makedirs_present [OF ex] by (simp add: download_model_def)
next
  assume a: "\<not> os_path_exists (fs w) MODEL_PATH \<and> (\<forall>b. fs w MODEL_DIR \<noteq> Some (File b))"
  then obtain d where d: "os_makedirs (fs w) [MODEL_DIR] = Inr d"
    using makedirs_ok [of "fs w"] by blast
  from makedirs_absent [OF _ d] a obtain sub where
    ne: "\<not> os_path_exists d MODEL_PATH" and sub: "d MODEL_DIR = Some (Dir sub)" by blast
  have "downloads (snd (download_model env w)) = downloads w @ [(MODEL_DRIVE_URL, MODEL_PATH)]"
    using d ne by (simp add: download_model_def Let_def emit_fields emit_def split: prod.split sum.split)
  moreover have "fs (snd (download_model env w)) = snd (gdown_download env MODEL_DRIVE_URL MODEL_PATH d)"
    using d ne by (simp add: download_model_def Let_def emit_fields emit_def split: prod.split sum.split)
  moreover have "(fst (download_model env w) = Inr ()) =
           (fst (gdown_download env MODEL_DRIVE_URL MODEL_PATH d) = Inr ())"
    using d ne by (auto simp add: download_model_def Let_def emit_fields emit_def split: prod.split sum.split)
  ultimately show "\<exists>d sub. os_makedirs (fs w) [MODEL_DIR] = Inr d \<and> d MODEL_DIR = Some (Dir sub) \<and>
         downloads (snd (download_model env w)) = downloads w @ [(MODEL_DRIVE_URL, MODEL_PATH)] \<and>
         fs (snd (download_model env w)) = snd (gdown_download env MODEL_DRIVE_URL MODEL_PATH d) \<and>
         (fst (download_model env w) = Inr ()) =
           (fst (gdown_download env MODEL_DRIVE_URL MODEL_PATH d) = Inr ())"
    using d sub by blast
qed

theorem download_model_provisions_witness:
  "os_path_exists (fs (process_start ((\<lambda>_. None)(lit ''models'' \<mapsto> Dir demo_model_dir)))) MODEL_PATH \<and>
   download_model demo_env (process_start ((\<lambda>_. None)(lit ''models'' \<mapsto> Dir demo_model_dir))) =
     (Inr (), emit (Info (lit ''Model already available '' @ [9989]))
        (process_start ((\<lambda>_. None)(lit ''models'' \<mapsto> Dir demo_model_dir)))) \<and>
   \<not> os_path_exists (fs (process_start (\<lambda>_. None))) MODEL_PATH \<and>
   downloads (snd (download_model demo_env (process_start (\<lambda>_. None)))) =
     [(MODEL_DRIVE_URL, MODEL_PATH)] \<and>
   os_path_exists (fs (snd (download_model demo_env (process_start (\<lambda>_. None))))) MODEL_PATH \<and>
   fst (download_model demo_env (process_start (\<lambda>_. None))) = Inr ()"
  using download_model_provisions
      [of "process_start ((\<lambda>_. None)(lit ''models'' \<mapsto> Dir demo_model_dir))" demo_env]
    download_model_provisions [of "process_start (\<lambda>_. None)" demo_env]
  by (simp add: process_start_def os_path_exists_def MODEL_PATH_def os_path_join_def
      MODEL_DIR_def demo_model_dir_def demo_env_def)

section \<open>load_model\<close>

lemma load_model_cached:
  "resource_cache w = Some h \<Longrightarrow> load_model env w = (Inr h, w)"
  by (simp add: load_model_def cache_resource_def)

lemma load_model_stores:
  "load_model env w = (Inr h, w') \<Longrightarrow> resource_cache w' = Some h"
  by (auto simp: load_model_def cache_resource_def load_model_body_def
      split: option.splits prod.splits sum.splits)

lemma load_model_frame:
  "llm_calls (snd (load_model env w)) = llm_calls w"
  by (simp add: load_model_def cache_resource_def load_model_body_def
      split: option.split prod.split sum.split)


section \<open>The script\<close>

lemma summarize_content_frame:
  "llama_loads (snd (summarize_content env llm topic content question w)) = llama_loads w"
  "resource_cache (snd (summarize_content env llm topic content question w)) = resource_cache w"
  by (simp_all add: summarize_content_def Let_def split: sum.split list.split)






section \<open>What get_wiki_content returns\<close>




text \<open>
  C3. When the lookup fails with an exception of class \<open>Exception\<close> (a missing page,
  an ambiguous title, a network error), raised by \<open>wikipedia.page\<close> or by reading the
  page's text, \<open>get_wiki_content\<close> does not raise: it returns \<open>None\<close> and adds
  exactly one message, an error message, to what is displayed; nothing else changes.
\<close>
theorem get_wiki_content_failure:
  assumes "wikipedia_page env topic = Inl e \<or>
           (\<exists>page. wikipedia_page env topic = Inr page \<and> page_content page = Inl e)"
      and "is_Exception (exc_class e)"
  shows "get_wiki_content env topic w =
           (Inr None, w\<lparr>ui := ui w @ [Error ([10060] @ lit '' Error fetching content: '' @ exc_str e)]\<rparr>)"
  using assms by (auto simp: get_wiki_content_def emit_def)

theorem get_wiki_content_failure_witness:
  "wikipedia_page demo_env (lit ''Zzxyqplmnasdf123'') =
     Inl (PyExc PageError (lit ''Page id does not match any pages.'')) \<and>
   is_Exception PageError \<and>
   get_wiki_content demo_env (lit ''Zzxyqplmnasdf123'') (process_start (\<lambda>_. None)) =
     (Inr None, (process_start (\<lambda>_. None))\<lparr>ui :=
        [Error ([10060] @ lit '' Error fetching content: '' @ lit ''Page id does not match any pages.'')]\<rparr>)"
proof -
  have h1: "wikipedia_page demo_env (lit ''Zzxyqplmnasdf123'') =
      Inl (PyExc PageError (lit ''Page id does not match any pages.''))"
    by (simp add: demo_env_def lit_def)
  have h2: "is_Exception (exc_class (PyExc PageError (lit ''Page id does not match any pages.'')))"
    by simp
  show ?thesis
    using get_wiki_content_failure [OF disjI1 [OF h1] h2, of "process_start (\<lambda>_. None)"] h1
    by (simp add: process_start_def)
qed



section \<open>What a run of the script leaves unchanged\<close>

lemma same_model_state_trans:
  "same_model_state w2 w1 \<Longrightarrow> same_model_state w1 w \<Longrightarrow> same_model_state w2 w"
  by (simp add: same_model_state_def)

lemma same_model_state_wiki: "same_model_state (snd (get_wiki_content env topic w)) w"
  by (simp add: same_model_state_def get_wiki_content_frame)

lemma topic_section_none:
  assumes "fst (get_wiki_content env (topic_input inp) w0) = Inr None"
  shows "fst (topic_section env inp w) = Inr ()"
    and "same_model_state (snd (topic_section env inp w)) w"
proof -
  let ?w1 = "emit (Spinner (lit ''Fetching Wikipedia content...'')) w"
  have g: "fst (get_wiki_content env (topic_input inp) ?w1) = Inr None"
    using assms get_wiki_content_fst_indep [of env "topic_input inp" ?w1 w0] by simp
  show "fst (topic_section env inp w) = Inr ()"
    using g by (simp add: topic_section_def fst_io_bind snd_io_bind st_emit_simps io_return_simps)
  have "snd (topic_section env inp w) = snd (get_wiki_content env (topic_input inp) ?w1)"
    using g by (simp add: topic_section_def fst_io_bind snd_io_bind st_emit_simps io_return_simps)
  then show "same_model_state (snd (topic_section env inp w)) w"
    by (simp add: same_model_state_def get_wiki_content_frame emit_fields)
qed



lemma app_cases:
  "(same_model_state (snd (app env inp w)) w \<and>
     (fst (app env inp w) = Inr () \<or>
      download_button inp \<and> (\<exists>w0 e. fst (download_model env w0) = Inl e \<and> fst (app env inp w) = Inl e))) \<or>
   (\<exists>w1. topic_input inp \<noteq> [] \<and> same_model_state w1 w \<and>
      same_model_state (snd (app env inp w)) (snd (topic_section env inp w1)) \<and>
      fst (app env inp w) = fst (topic_section env inp w1))"
proof -
  let ?w4 = "emit (SidebarHeader ([9881, 65039] @ lit '' Setup''))
     (emit (Markdown (lit ''Ask questions or get summaries from any Wikipedia topic using the Phi-2 model!''))
     (emit (Title ([128218] @ lit '' Wikipedia Q&A Assistant (Phi-2)''))
     (emit (SetPageConfig (lit ''Wikipedia Q&A Assistant'') (lit ''wide'')) w)))"
  let ?d = "(if download_button inp then download_model env else io_return ()) ?w4"
  have d: "same_model_state (snd ?d) w"
    by (simp add: same_model_state_def download_model_frame io_return_simps emit_fields)
  show ?thesis
  proof (cases "fst ?d")
    case (Inl e)
    then have b: "download_button inp"
      by (cases "download_button inp") (simp_all add: io_return_simps)
    then have de: "fst (download_model env ?w4) = Inl e" using Inl by simp
    have s: "snd (app env inp w) = snd ?d"
      using Inl by (simp add: app_def snd_io_bind fst_io_bind st_emit_simps)
    have f: "fst (app env inp w) = Inl e"
      using Inl by (simp add: app_def snd_io_bind fst_io_bind st_emit_simps)
    have "same_model_state (snd (app env inp w)) w" using d s by simp
    moreover have "\<exists>w0 e. fst (download_model env w0) = Inl e \<and> fst (app env inp w) = Inl e"
      using de f by blast
    ultimately show ?thesis using b by blast
  next
    case (Inr u)
    show ?thesis
    proof (cases "topic_input inp = []")
      case True
      have "same_model_state (snd (app env inp w)) (snd ?d)"
        using Inr True
        by (simp add: app_def snd_io_bind fst_io_bind st_emit_simps io_return_simps
            same_model_state_def emit_fields)
      then have "same_model_state (snd (app env inp w)) w"
        using d by (rule same_model_state_trans)
      moreover have "fst (app env inp w) = Inr ()"
        using Inr True
        by (simp add: app_def snd_io_bind fst_io_bind st_emit_simps io_return_simps)
      ultimately show ?thesis by blast
    next
      case False
      have "same_model_state (snd (app env inp w)) (snd (topic_section env inp (snd ?d)))"
        using Inr False
        by (simp add: app_def snd_io_bind fst_io_bind st_emit_simps io_return_simps
            same_model_state_def emit_fields split: sum.split)
      moreover have "fst (app env inp w) = fst (topic_section env inp (snd ?d))"
        using Inr False
        by (simp add: app_def snd_io_bind fst_io_bind st_emit_simps io_return_simps
            split: sum.split)
      ultimately show ?thesis using False d by blast
    qed
  qed
qed


section \<open>No content, no model\<close>

text \<open>
  C6. When \<open>get_wiki_content\<close> returns \<open>None\<close> for the entered topic, the script
  never reaches the model: the block under \<open>if topic:\<close> returns normally, and neither it
  nor the whole run loads the model or calls the engine. The run itself ends normally; it
  can raise only where the download button was pressed and \<open>download_model\<close> raised,
  which is before the topic is looked up.
\<close>
theorem no_model_call_without_content:
  assumes "fst (get_wiki_content env (topic_input inp) w0) = Inr None"
  shows "fst (topic_section env inp w) = Inr () \<and>
         llm_calls (snd (topic_section env inp w)) = llm_calls w \<and>
         llama_loads (snd (topic_section env inp w)) = llama_loads w \<and>
         resource_cache (snd (topic_section env inp w)) = resource_cache w \<and>
         llm_calls (snd (app env inp w)) = llm_calls w \<and>
         llama_loads (snd (app env inp w)) = llama_loads w \<and>
         resource_cache (snd (app env inp w)) = resource_cache w \<and>
         (fst (app env inp w) = Inr () \<or>
          download_button inp \<and>
          (\<exists>w1 e. fst (download_model env w1) = Inl e \<and> fst (app env inp w) = Inl e))"
proof -
  have t1: "fst (topic_section env inp w1) = Inr ()" for w1
    using assms by (rule topic_section_none(1))
  have t2: "same_model_state (snd (topic_section env inp w1)) w1" for w1
    using assms by (rule topic_section_none(2))
  have a: "same_model_state (snd (app env inp w)) w \<and>
     (fst (app env inp w) = Inr () \<or>
      download_button inp \<and>
      (\<exists>w1 e. fst (download_model env w1) = Inl e \<and> fst (app env inp w) = Inl e))"
  proof -
    consider (direct) "same_model_state (snd (app env inp w)) w \<and>
       (fst (app env inp w) = Inr () \<or>
        download_button inp \<and>
        (\<exists>w0 e. fst (download_model env w0) = Inl e \<and> fst (app env inp w) = Inl e))"
      | (topic) w1 where "same_model_state w1 w"
          "same_model_state (snd (app env inp w)) (snd (topic_section env inp w1))"
          "fst (app env inp w) = fst (topic_section env inp w1)"
      using app_cases [of env inp w] by blast
    then show ?thesis
    proof cases
      case direct
      then show ?thesis by simp
    next
      case (topic w1)
      have "same_model_state (snd (app env inp w)) w1"
        using topic(2) t2 [of w1] by (rule same_model_state_trans)
      then have "same_model_state (snd (app env inp w)) w"
        using topic(1) by (rule same_model_state_trans)
      moreover have "fst (app env inp w) = Inr ()" using topic(3) t1 [of w1] by simp
      ultimately show ?thesis by simp
    qed
  qed
  show ?thesis
    using t1 [of w] t2 [of w] a by (simp add: same_model_state_def)
qed

lemma demo_missing:
  "fst (get_wiki_content demo_env (topic_input demo_missing_inputs) (process_start demo_fs)) = Inr None"
  by (simp add: get_wiki_content_def demo_env_def demo_missing_inputs_def lit_def)

theorem no_model_call_without_content_witness:
  "fst (get_wiki_content demo_env (topic_input demo_missing_inputs) (process_start demo_fs)) = Inr None \<and>
   fst (app demo_env demo_missing_inputs (process_start demo_fs)) = Inr () \<and>
   llm_calls (snd (app demo_env demo_missing_inputs (process_start demo_fs))) = [] \<and>
   llama_loads (snd (app demo_env demo_missing_inputs (process_start demo_fs))) = 0 \<and>
   resource_cache (snd (app demo_env demo_missing_inputs (process_start demo_fs))) = None"
  using no_model_call_without_content [OF demo_missing, of "process_start demo_fs"] demo_missing
  by (simp add: process_start_def demo_missing_inputs_def)

section \<open>The empty question\<close>

lemma action_section_no_question:
  assumes "action_radio inp = Ask_a_Question" and "question_input inp = []"
  shows "action_section env inp llm s w = (Inr (), w)"
  using assms by (simp add: action_section_def io_return_def)

lemma content_section_no_question:
  assumes "action_radio inp = Ask_a_Question" and "question_input inp = []"
  shows "llm_calls (snd (content_section env inp s w)) = llm_calls w"
proof -
  let ?w3 = "emit (Spinner (lit ''Loading Phi-2 model...''))
        (emit (Write (if length s > 2000 then take 2000 s @ lit ''...'' else s))
        (emit (Expander ([128196] @ lit '' View Retrieved Wikipedia Text'')) w))"
  show ?thesis
  proof (cases "fst (load_model env ?w3)")
    case (Inl e)
    then show ?thesis
      by (simp add: content_section_def snd_io_bind fst_io_bind st_emit_simps emit_fields
          load_model_frame)
  next
    case (Inr h)
    then show ?thesis
      by (simp add: content_section_def snd_io_bind fst_io_bind st_emit_simps emit_fields
          load_model_frame action_section_no_question [OF assms])
  qed
qed

lemma topic_section_no_question:
  assumes "action_radio inp = Ask_a_Question" and "question_input inp = []"
  shows "llm_calls (snd (topic_section env inp w)) = llm_calls w"
proof -
  let ?w0 = "emit (Spinner (lit ''Fetching Wikipedia content...'')) w"
  let ?g = "get_wiki_content env (topic_input inp) ?w0"
  have g: "llm_calls (snd ?g) = llm_calls w" by (simp add: get_wiki_content_frame emit_fields)
  show ?thesis
  proof (cases "fst ?g")
    case (Inl e)
    then show ?thesis using g
      by (simp add: topic_section_def snd_io_bind fst_io_bind st_emit_simps)
  next
    case (Inr r)
    then show ?thesis using g
      by (cases r)
        (simp_all add: topic_section_def snd_io_bind fst_io_bind st_emit_simps io_return_simps
          content_section_no_question [OF assms])
  qed
qed

text \<open>
  C7. In the mode "Ask a Question" with an empty question field the action block does
  nothing, whether or not the button is pressed, and the run makes no call to the engine.
\<close>
theorem empty_question_no_generation:
  assumes "action_radio inp = Ask_a_Question" and "question_input inp = []"
  shows "action_section env inp llm s w = (Inr (), w) \<and>
         llm_calls (snd (app env inp w)) = llm_calls w"
proof -
  have "llm_calls (snd (app env inp w)) = llm_calls w"
  proof -
    consider (direct) "same_model_state (snd (app env inp w)) w"
      | (topic) w1 where "same_model_state w1 w"
          "same_model_state (snd (app env inp w)) (snd (topic_section env inp w1))"
      using app_cases [of env inp w] by blast
    then show ?thesis
    proof cases
      case direct
      then show ?thesis by (simp add: same_model_state_def)
    next
      case (topic w1)
      then show ?thesis
        using topic_section_no_question [OF assms, of env w1]
        by (simp add: same_model_state_def)
    qed
  qed
  then show ?thesis using action_section_no_question [OF assms] by simp
qed

theorem empty_question_no_generation_witness:
  "action_radio demo_ask_inputs = Ask_a_Question \<and> question_input demo_ask_inputs = [] \<and>
   answer_button demo_ask_inputs \<and>
   llm_calls (snd (app demo_env demo_ask_inputs (process_start demo_fs))) = []"
proof -
  have h1: "action_radio demo_ask_inputs = Ask_a_Question" by (simp add: demo_ask_inputs_def)
  have h2: "question_input demo_ask_inputs = []" by (simp add: demo_ask_inputs_def)
  show ?thesis
    using empty_question_no_generation [OF h1 h2, of demo_env _ _ "process_start demo_fs"] h1 h2
    by (simp add: process_start_def demo_ask_inputs_def)
qed


section \<open>The cached handle\<close>

lemma cache_inv_same: "same_model_state w1 w \<Longrightarrow> cache_inv w1 = cache_inv w"
  by (simp add: same_model_state_def cache_inv_def split: option.split)

lemma cache_inv_emit: "cache_inv (emit ev w) = cache_inv w"
  by (simp add: cache_inv_def emit_fields split: option.split)

lemma cache_inv_start: "cache_inv (process_start d)"
  by (simp add: cache_inv_def process_start_def)

lemma load_model_inv:
  assumes "cache_inv w"
  shows "cache_inv (snd (load_model env w))"
    and "fst (load_model env w) = Inr h \<Longrightarrow> h = Handle 0"
  using assms
  by (auto simp: cache_inv_def load_model_def cache_resource_def load_model_body_def
      split: option.splits sum.splits)

lemma summarize_content_inv:
  assumes "cache_inv w"
  shows "cache_inv (snd (summarize_content env (Handle 0) topic content question w))"
  using assms
  by (simp add: cache_inv_def summarize_content_calls summarize_content_frame split: option.splits)

lemma action_section_inv:
  assumes "cache_inv w"
  shows "cache_inv (snd (action_section env inp (Handle 0) s w))"
  using assms
  by (cases "action_radio inp")
    (simp_all add: action_section_def snd_io_bind fst_io_bind st_emit_simps io_return_simps
      cache_inv_emit summarize_content_inv split: sum.split)

lemma content_section_inv:
  assumes "cache_inv w"
  shows "cache_inv (snd (content_section env inp s w))"
proof -
  let ?w3 = "emit (Spinner (lit ''Loading Phi-2 model...''))
        (emit (Write (if length s > 2000 then take 2000 s @ lit ''...'' else s))
        (emit (Expander ([128196] @ lit '' View Retrieved Wikipedia Text'')) w))"
  have w3: "cache_inv ?w3" using assms by (simp add: cache_inv_emit)
  show ?thesis
  proof (cases "fst (load_model env ?w3)")
    case (Inl e)
    then show ?thesis
      using load_model_inv(1) [OF w3, of env]
      by (simp add: content_section_def snd_io_bind fst_io_bind st_emit_simps)
  next
    case (Inr h)
    then have h: "h = Handle 0" using load_model_inv(2) [OF w3] by blast
    have "cache_inv (emit (Subheader ([129513] @ lit '' Choose Action'')) (snd (load_model env ?w3)))"
      using load_model_inv(1) [OF w3, of env] by (simp add: cache_inv_emit)
    then show ?thesis
      using Inr h action_section_inv
      by (simp add: content_section_def snd_io_bind fst_io_bind st_emit_simps)
  qed
qed

lemma topic_section_inv:
  assumes "cache_inv w"
  shows "cache_inv (snd (topic_section env inp w))"
proof -
  let ?w0 = "emit (Spinner (lit ''Fetching Wikipedia content...'')) w"
  let ?g = "get_wiki_content env (topic_input inp) ?w0"
  have g: "cache_inv (snd ?g)"
    using assms cache_inv_same [OF same_model_state_wiki, of env "topic_input inp" ?w0]
    by (simp add: cache_inv_emit)
  show ?thesis
  proof (cases "fst ?g")
    case (Inl e)
    then show ?thesis using g
      by (simp add: topic_section_def snd_io_bind fst_io_bind st_emit_simps)
  next
    case (Inr r)
    then show ?thesis using g content_section_inv
      by (cases r)
        (simp_all add: topic_section_def snd_io_bind fst_io_bind st_emit_simps io_return_simps)
  qed
qed

lemma app_inv:
  assumes "cache_inv w"
  shows "cache_inv (snd (app env inp w))"
proof -
  consider (direct) "same_model_state (snd (app env inp w)) w"
    | (topic) w1 where "same_model_state w1 w"
        "same_model_state (snd (app env inp w)) (snd (topic_section env inp w1))"
    using app_cases [of env inp w] by blast
  then show ?thesis
  proof cases
    case direct
    then show ?thesis using assms cache_inv_same by blast
  next
    case (topic w1)
    have "cache_inv w1" using topic(1) assms cache_inv_same by blast
    then have "cache_inv (snd (topic_section env inp w1))" by (rule topic_section_inv)
    then show ?thesis using topic(2) cache_inv_same by blast
  qed
qed

lemma app_runs_inv: "cache_inv w \<Longrightarrow> cache_inv (app_runs runs w)"
proof (induction runs arbitrary: w)
  case Nil
  then show ?case by simp
next
  case (Cons r runs)
  obtain env inp where r: "r = (env, inp)" by (cases r)
  show ?case unfolding r using Cons.IH [OF app_inv [OF Cons.prems]] by simp
qed

text \<open>
  C1. The model handle is built at most once in the life of the process. Once a call of
  \<open>load_model\<close> has returned a handle, every later call, in any state that still holds
  that cache entry and whatever the outside world then is, returns the identical handle
  and leaves the state as it is, so no second load happens. Over any sequence of runs of
  the script from the start of the process at most one \<open>Llama\<close> object is built, and
  every call to the engine goes through that first object.
\<close>
theorem load_model_singleton:
  "(load_model env w = (Inr h, w') \<longrightarrow>
      (\<forall>env2 w2. resource_cache w2 = resource_cache w' \<longrightarrow> load_model env2 w2 = (Inr h, w2))) \<and>
   llama_loads (app_runs runs (process_start d)) \<le> 1 \<and>
   list_all (\<lambda>r. req_handle r = Handle 0) (llm_calls (app_runs runs (process_start d)))"
proof -
  have "cache_inv (app_runs runs (process_start d))"
    using cache_inv_start by (rule app_runs_inv)
  then have "llama_loads (app_runs runs (process_start d)) \<le> 1 \<and>
      list_all (\<lambda>r. req_handle r = Handle 0) (llm_calls (app_runs runs (process_start d)))"
    by (auto simp: cache_inv_def split: option.splits)
  then show ?thesis
    using load_model_stores [of env w h w'] load_model_cached by auto
qed

lemma demo_load:
  "load_model demo_env (process_start demo_fs) =
     (Inr (Handle 0), (process_start demo_fs)\<lparr>llama_loads := 1, resource_cache := Some (Handle 0)\<rparr>)"
  by (simp add: load_model_def cache_resource_def load_model_body_def demo_env_def
      process_start_def demo_fs_def demo_model_dir_def os_path_exists_def MODEL_PATH_def
      os_path_join_def MODEL_DIR_def)

theorem load_model_singleton_witness:
  "load_model demo_env (process_start demo_fs) =
     (Inr (Handle 0), (process_start demo_fs)\<lparr>llama_loads := 1, resource_cache := Some (Handle 0)\<rparr>) \<and>
   load_model demo_env ((process_start demo_fs)\<lparr>llama_loads := 1, resource_cache := Some (Handle 0)\<rparr>) =
     (Inr (Handle 0), (process_start demo_fs)\<lparr>llama_loads := 1, resource_cache := Some (Handle 0)\<rparr>) \<and>
   llama_loads (app_runs [(demo_env, demo_inputs), (demo_env, demo_ask_inputs)] (process_start demo_fs)) \<le> 1"
  using load_model_singleton [of demo_env "process_start demo_fs" "Handle 0"
      "(process_start demo_fs)\<lparr>llama_loads := 1, resource_cache := Some (Handle 0)\<rparr>"
      "[(demo_env, demo_inputs), (demo_env, demo_ask_inputs)]" demo_fs] demo_load
  by simp


end
